theory Spec2Isabelle
  imports Main "HOL-Library.Word"
begin

unbundle bit_operations_syntax

section \<open>Window::Orientation\<close>

text \<open>
  \<^verbatim>\<open>Window::Orientation\<close> is an enumeration used as a bit mask. Its declaration (the header
  \<^verbatim>\<open>bdn/ui/Window.h\<close>) is not among the sources, so the enumerators that \<^verbatim>\<open>Window.cpp\<close>
  names are parameters of the model: a record of the five constants, each an \<^verbatim>\<open>int\<close>.
\<close>

type_synonym orientation = "32 word"

record orientation_consts =
  Orientation_Portrait :: orientation
  Orientation_LandscapeLeft :: orientation
  Orientation_LandscapeRight :: orientation
  Orientation_PortraitUpsideDown :: orientation
  Orientation_All :: orientation

text \<open>
  \<^verbatim>\<open>orientation & Orientation::Portrait\<close> used as the condition of an \<^verbatim>\<open>if\<close>: the bitwise
  conjunction of the two underlying values, read as a truth value (non-zero is true).
\<close>

definition orientation_and :: "orientation \<Rightarrow> orientation \<Rightarrow> bool" where
  "orientation_and a b = (a AND b \<noteq> 0)"

text \<open>
  One assignment of the constants, one bit per direction, for evaluating the model on
  concrete masks.
\<close>

definition one_bit_orientations :: orientation_consts where
  "one_bit_orientations =
     \<lparr> Orientation_Portrait = 1, Orientation_LandscapeLeft = 2,
       Orientation_LandscapeRight = 4, Orientation_PortraitUpsideDown = 8,
       Orientation_All = 15 \<rparr>"

section \<open>Window::orientationToString\<close>

text \<open>
  The function writes into a \<^verbatim>\<open>std::stringstream\<close>. The stream is modelled by the characters
  written so far: \<^verbatim>\<open>str << s\<close> appends, \<^verbatim>\<open>str.tellp()\<close> is the number of characters written,
  \<^verbatim>\<open>str.str()\<close> is the content.
\<close>

type_synonym stringstream = string

definition put :: "stringstream \<Rightarrow> string \<Rightarrow> stringstream" where
  "put str s = str @ s"

definition tellp :: "stringstream \<Rightarrow> nat" where
  "tellp str = length str"

definition orientationToString :: "orientation_consts \<Rightarrow> orientation \<Rightarrow> string" where
  "orientationToString K orientation =
     (let str = [];
          str = (if orientation_and orientation (Orientation_Portrait K)
                 then put str ''Portrait''
                 else str);
          str = (if orientation_and orientation (Orientation_LandscapeLeft K)
                 then put (if tellp str \<noteq> 0 then put str '' | '' else str) ''LandscapeLeft''
                 else str);
          str = (if orientation_and orientation (Orientation_LandscapeRight K)
                 then put (if tellp str \<noteq> 0 then put str '' | '' else str) ''LandscapeRight''
                 else str);
          str = (if orientation_and orientation (Orientation_PortraitUpsideDown K)
                 then put (if tellp str \<noteq> 0 then put str '' | '' else str) ''PortraitUpsideDown''
                 else str)
      in str)"

subsection \<open>What the result is required to be\<close>

text \<open>
  The four flags with their names, in the order Portrait, LandscapeLeft, LandscapeRight,
  PortraitUpsideDown; the names of the flags that a mask has set, in that order; and a list
  of names written with a separator between consecutive ones.
\<close>

definition orientation_names :: "orientation_consts \<Rightarrow> (orientation \<times> string) list" where
  "orientation_names K =
     [(Orientation_Portrait K, ''Portrait''),
      (Orientation_LandscapeLeft K, ''LandscapeLeft''),
      (Orientation_LandscapeRight K, ''LandscapeRight''),
      (Orientation_PortraitUpsideDown K, ''PortraitUpsideDown'')]"

definition names_of_set_flags :: "orientation_consts \<Rightarrow> orientation \<Rightarrow> string list" where
  "names_of_set_flags K orientation =
     map snd (filter (\<lambda>fn. orientation_and orientation (fst fn)) (orientation_names K))"

fun separated_by :: "string \<Rightarrow> string list \<Rightarrow> string" where
  "separated_by sep [] = []"
| "separated_by sep [n] = n"
| "separated_by sep (n # m # ns) = n @ sep @ separated_by sep (m # ns)"

section \<open>double\<close>

text \<open>
  The value of a \<^verbatim>\<open>UiLength\<close> is a C++ \<^verbatim>\<open>double\<close>. The only operation the sources apply
  to it is \<^verbatim>\<open>==\<close>, so a double is modelled by the 64 bits of its IEEE 754 binary64
  encoding: one sign bit, eleven exponent bits, 52 fraction bits. Two doubles compare
  equal when neither is a NaN and they are the same number: the same bits, or two zeros
  of either sign.
\<close>

type_synonym double = "64 word"

definition double_exponent :: "double \<Rightarrow> 64 word" where
  "double_exponent d = drop_bit 52 d AND 0x7FF"

definition double_fraction :: "double \<Rightarrow> 64 word" where
  "double_fraction d = d AND 0xFFFFFFFFFFFFF"

definition double_isnan :: "double \<Rightarrow> bool" where
  "double_isnan d = (double_exponent d = 0x7FF \<and> double_fraction d \<noteq> 0)"

definition double_iszero :: "double \<Rightarrow> bool" where
  "double_iszero d = (double_exponent d = 0 \<and> double_fraction d = 0)"

definition double_eq :: "double \<Rightarrow> double \<Rightarrow> bool" where
  "double_eq a b =
     (\<not> double_isnan a \<and> \<not> double_isnan b \<and> (a = b \<or> (double_iszero a \<and> double_iszero b)))"

text \<open>The doubles the sources and the examples below name: \<^verbatim>\<open>0\<close>, \<^verbatim>\<open>1.0\<close> and a quiet NaN.\<close>

definition double_0 :: double where
  "double_0 = 0"

definition double_1 :: double where
  "double_1 = 0x3FF0000000000000"

definition double_NaN :: double where
  "double_NaN = 0x7FF8000000000000"

section \<open>UiLength\<close>

text \<open>
  The class has the enumeration \<^verbatim>\<open>Unit\<close>, the two fields, two constructors and the two
  comparison operators. Its base class \<^verbatim>\<open>Base\<close> is not among the sources and adds no field
  that the class reads.

  \<^verbatim>\<open>Unit\<close> is an unscoped enumeration without a fixed underlying type; its enumerators are
  \<open>sem\<close> (0), \<open>realPixel\<close> (1) and \<open>pixel96\<close> (2). The values of such an enumeration are
  0 to 3, so a \<^verbatim>\<open>Unit\<close> can also hold 3 (by \<^verbatim>\<open>static_cast<Unit>(3)\<close>), a value that no
  enumerator names: \<open>Unit_3\<close>.
\<close>

datatype Unit = sem | realPixel | pixel96 | Unit_3

record UiLength =
  unit :: Unit
  "value" :: double

text \<open>\<^verbatim>\<open>UiLength()\<close>\<close>

definition UiLength_default :: UiLength where
  "UiLength_default = \<lparr> unit = sem, value = double_0 \<rparr>"

text \<open>\<^verbatim>\<open>UiLength(Unit unit, double value)\<close>\<close>

definition UiLength_init :: "Unit \<Rightarrow> double \<Rightarrow> UiLength" where
  "UiLength_init u v = \<lparr> unit = u, value = v \<rparr>"

text \<open>\<^verbatim>\<open>operator==\<close> and \<^verbatim>\<open>operator!=\<close>\<close>

definition UiLength_eq :: "UiLength \<Rightarrow> UiLength \<Rightarrow> bool" where
  "UiLength_eq a o' = (unit a = unit o' \<and> double_eq (value a) (value o'))"

definition UiLength_neq :: "UiLength \<Rightarrow> UiLength \<Rightarrow> bool" where
  "UiLength_neq a o' = (\<not> UiLength_eq a o')"

subsection \<open>The member functions of UiLength\<close>

text \<open>
  A call of a member function of the class, with its arguments. The class declares four
  member functions (\<^verbatim>\<open>UiLength.h\<close>, lines 141 to 163): the two constructors and the two
  comparison operators, whose left operand is \<^verbatim>\<open>this\<close>. The language adds the copy
  constructor and the copy assignment, which both yield the length they copy from. The
  header declares no other function, inside the class or outside it.
\<close>

datatype UiLength_member =
    M_UiLength
  | M_UiLength_init Unit double
  | M_eq UiLength UiLength
  | M_neq UiLength UiLength
  | M_copy UiLength

text \<open>What a call yields: a constructed length, or the truth value of a comparison.\<close>

datatype UiLength_result = R_UiLength UiLength | R_bool bool

fun UiLength_call :: "UiLength_member \<Rightarrow> UiLength_result" where
  "UiLength_call M_UiLength = R_UiLength UiLength_default"
| "UiLength_call (M_UiLength_init u v) = R_UiLength (UiLength_init u v)"
| "UiLength_call (M_eq a o') = R_bool (UiLength_eq a o')"
| "UiLength_call (M_neq a o') = R_bool (UiLength_neq a o')"
| "UiLength_call (M_copy o') = R_UiLength o'"

text \<open>The lengths that a call is given.\<close>

fun UiLength_arguments :: "UiLength_member \<Rightarrow> UiLength list" where
  "UiLength_arguments M_UiLength = []"
| "UiLength_arguments (M_UiLength_init u v) = []"
| "UiLength_arguments (M_eq a o') = [a, o']"
| "UiLength_arguments (M_neq a o') = [a, o']"
| "UiLength_arguments (M_copy o') = [o']"

subsection \<open>What a conversion between units would be\<close>

text \<open>
  A call converts the length \<open>l\<close> to the unit \<open>u\<close> when it is given \<open>l\<close>, \<open>u\<close> is not the
  unit that \<open>l\<close> already has, and the call yields a length in the unit \<open>u\<close>.
\<close>

definition converts :: "UiLength_member \<Rightarrow> UiLength \<Rightarrow> Unit \<Rightarrow> bool" where
  "converts m l u =
     (l \<in> set (UiLength_arguments m) \<and> unit l \<noteq> u
      \<and> (case UiLength_call m of R_UiLength l' \<Rightarrow> unit l' = u | R_bool r \<Rightarrow> False))"

section \<open>HTTPResponse\<close>

text \<open>
  Modelled from the spec: the header \<^verbatim>\<open>HTTPResponse.h\<close> is not among the sources. The spec
  names the class as a type consumed through its documented interface, and the reference
  page \<^verbatim>\<open>docs/reference/net/http_response.md\<close> documents it as a class of five fields and
  nothing else. \<^verbatim>\<open>HTTPRequest\<close> is not among the sources either and is a type parameter;
  \<^verbatim>\<open>int\<close> is a 32-bit integer and \<^verbatim>\<open>String\<close> a character string.
\<close>

record 'request HTTPResponse =
  originalRequest :: 'request
  responseCode :: "32 word"
  url :: string
  header :: string
  data :: string

section \<open>Window\<close>

text \<open>
  The properties of a window that \<^verbatim>\<open>Window.cpp\<close> names, and the properties of its core that
  \<^verbatim>\<open>bindViewCore\<close> names.
\<close>

datatype window_property =
    P_visible
  | P_contentView
  | P_geometry
  | P_contentGeometry
  | P_title
  | P_allowedOrientations
  | P_currentOrientation
  | P_internalContentGeometry

datatype core_property =
    Core_contentView
  | Core_title
  | Core_allowedOrientations
  | Core_currentOrientation
  | Core_contentGeometry

text \<open>
  The one change handler the file installs: the lambda of the constructor, which passes
  the new content view to the helper \<^verbatim>\<open>_contentView\<close>.
\<close>

datatype handler = update_contentView_helper

text \<open>
  The state of a window, as far as \<^verbatim>\<open>Window.cpp\<close> reads or writes it. A view is known by
  its identity \<^typ>\<open>'v\<close>; a \<^verbatim>\<open>std::shared_ptr<View>\<close> is \<^term>\<open>None\<close> when it is null.
  \<^item> \<open>visible\<close>, \<open>allowedOrientations\<close>, \<open>contentView\<close>: the values of the three properties;
  \<^item> \<open>contentView_onChange\<close>: the handlers added to \<^verbatim>\<open>contentView.onChange()\<close>;
  \<^item> \<open>contentView_helper\<close>: the child that \<^verbatim>\<open>_contentView\<close> was last given;
  \<^item> \<open>coreCreatingProperties\<close>: the properties passed to \<^verbatim>\<open>registerCoreCreatingProperties\<close>;
  \<^item> \<open>coreBindings\<close>: the calls \<^verbatim>\<open>core->p.bind(q)\<close> made so far, as pairs \<open>(p, q)\<close>.
  The classes \<^verbatim>\<open>View\<close>, \<^verbatim>\<open>Property\<close> and \<^verbatim>\<open>Window::Core\<close> are not among the sources: a
  registration and a binding are modelled by the record of the call.
\<close>

record 'v Window =
  visible :: bool
  allowedOrientations :: orientation
  contentView :: "'v option"
  contentView_onChange :: "handler list"
  contentView_helper :: "'v option"
  coreCreatingProperties :: "window_property list"
  coreBindings :: "(core_property \<times> window_property) list"

text \<open>
  Assigning to the property \<open>contentView\<close> stores the value and runs the handlers of
  \<^verbatim>\<open>contentView.onChange()\<close> in the order they were added.
\<close>

fun notify :: "handler list \<Rightarrow> 'v Window \<Rightarrow> 'v Window" where
  "notify [] w = w"
| "notify (update_contentView_helper # hs) w =
     notify hs (w\<lparr>contentView_helper := contentView w\<rparr>)"

definition assign_contentView :: "'v option \<Rightarrow> 'v Window \<Rightarrow> 'v Window" where
  "assign_contentView v w =
     (let w = w\<lparr>contentView := v\<rparr> in notify (contentView_onChange w) w)"

definition registerCoreCreatingProperties ::
    "window_property list \<Rightarrow> 'v Window \<Rightarrow> 'v Window" where
  "registerCoreCreatingProperties ps w =
     w\<lparr>coreCreatingProperties := coreCreatingProperties w @ ps\<rparr>"

definition Property_bind :: "core_property \<Rightarrow> window_property \<Rightarrow> 'v Window \<Rightarrow> 'v Window" where
  "Property_bind p q w = w\<lparr>coreBindings := coreBindings w @ [(p, q)]\<rparr>"

subsection \<open>The constructor\<close>

text \<open>
  \<open>w0\<close> is the object as the base class constructor \<^verbatim>\<open>View(viewCoreFactory)\<close>, the default
  member initialisers and the registration of the core type leave it; none of them is among
  the sources, so it is a parameter. The body then runs as written.
\<close>

definition Window_new :: "orientation_consts \<Rightarrow> 'v Window \<Rightarrow> 'v Window" where
  "Window_new K w0 =
     (let w = w0\<lparr>visible := False\<rparr>;
          w = w\<lparr>allowedOrientations := Orientation_All K\<rparr>;
          w = registerCoreCreatingProperties
                [P_visible, P_contentView, P_geometry, P_contentGeometry] w;
          w = w\<lparr>contentView_onChange := contentView_onChange w @ [update_contentView_helper]\<rparr>
      in w)"

subsection \<open>Assertions and the calling thread\<close>

text \<open>
  \<^verbatim>\<open>assert\<close> checks its condition unless the program was compiled with \<^verbatim>\<open>NDEBUG\<close>; a failed
  assertion ends the program. \<^verbatim>\<open>Application::isMainThread()\<close> is not among the sources: its
  answer for the calling thread is the field \<open>isMainThread\<close>.
\<close>

record Application =
  isMainThread :: bool
  NDEBUG :: bool

datatype error = AssertionFailed

definition assert' :: "Application \<Rightarrow> bool \<Rightarrow> error + unit" where
  "assert' app cond = (if NDEBUG app \<or> cond then Inr () else Inl AssertionFailed)"

subsection \<open>The child views\<close>

definition childViews :: "Application \<Rightarrow> 'v Window \<Rightarrow> error + 'v list" where
  "childViews app w =
     (case assert' app (isMainThread app) of
        Inl e \<Rightarrow> Inl e
      | Inr _ \<Rightarrow>
          (case contentView w of
             Some v \<Rightarrow> Inr [v]
           | None \<Rightarrow> Inr []))"

definition removeAllChildViews :: "'v Window \<Rightarrow> 'v Window" where
  "removeAllChildViews w = assign_contentView None w"

definition childViewStolen :: "Application \<Rightarrow> 'v option \<Rightarrow> 'v Window \<Rightarrow> error + 'v Window" where
  "childViewStolen app childView w =
     (case assert' app (isMainThread app) of
        Inl e \<Rightarrow> Inl e
      | Inr _ \<Rightarrow>
          Inr (if childView = contentView w then assign_contentView None w else w))"

subsection \<open>Binding the core\<close>

text \<open>
  \<^verbatim>\<open>View::bindViewCore\<close> is not among the sources and is a parameter: whatever it does to
  the window happens first, then the five bindings are made in the order written.
\<close>

definition bindViewCore :: "('v Window \<Rightarrow> 'v Window) \<Rightarrow> 'v Window \<Rightarrow> 'v Window" where
  "bindViewCore View_bindViewCore w =
     (let w = View_bindViewCore w;
          w = Property_bind Core_contentView P_contentView w;
          w = Property_bind Core_title P_title w;
          w = Property_bind Core_allowedOrientations P_allowedOrientations w;
          w = Property_bind Core_currentOrientation P_currentOrientation w;
          w = Property_bind Core_contentGeometry P_internalContentGeometry w
      in w)"

subsection \<open>The states a window can reach\<close>

text \<open>
  A window starts as the constructor leaves it and changes by the operations of the class
  and by assignments to its public properties. An operation whose assertion fails ends the
  program, so it leads to no state. \<^verbatim>\<open>childViews\<close> only reads the window.
\<close>

inductive reachable ::
    "orientation_consts \<Rightarrow> ('v Window \<Rightarrow> 'v Window) \<Rightarrow> 'v Window \<Rightarrow> bool"
  for K :: orientation_consts and View_bindViewCore :: "'v Window \<Rightarrow> 'v Window"
where
  constructed: "reachable K View_bindViewCore (Window_new K w0)"
| removed: "reachable K View_bindViewCore w \<Longrightarrow>
     reachable K View_bindViewCore (removeAllChildViews w)"
| stolen: "reachable K View_bindViewCore w \<Longrightarrow> childViewStolen app childView w = Inr w' \<Longrightarrow>
     reachable K View_bindViewCore w'"
| bound: "reachable K View_bindViewCore w \<Longrightarrow>
     reachable K View_bindViewCore (bindViewCore View_bindViewCore w)"
| content_assigned: "reachable K View_bindViewCore w \<Longrightarrow>
     reachable K View_bindViewCore (assign_contentView v w)"
| visible_assigned: "reachable K View_bindViewCore w \<Longrightarrow>
     reachable K View_bindViewCore (w\<lparr>visible := b\<rparr>)"
| orientations_assigned: "reachable K View_bindViewCore w \<Longrightarrow>
     reachable K View_bindViewCore (w\<lparr>allowedOrientations := m\<rparr>)"

section \<open>Concrete windows and callers\<close>

text \<open>
  A caller on the main thread and one on another thread, both in a build that checks
  assertions; an object as the base class might leave it (visible, portrait only, no
  content view); and the window constructed from it, with view 7 as its content view.
\<close>

definition main_thread :: Application where
  "main_thread = \<lparr> isMainThread = True, NDEBUG = False \<rparr>"

definition other_thread :: Application where
  "other_thread = \<lparr> isMainThread = False, NDEBUG = False \<rparr>"

definition example_View_state :: "nat Window" where
  "example_View_state =
     \<lparr> visible = True, allowedOrientations = 1, contentView = None,
       contentView_onChange = [], contentView_helper = None,
       coreCreatingProperties = [], coreBindings = [] \<rparr>"

definition example_Window :: "nat Window" where
  "example_Window =
     assign_contentView (Some 7) (Window_new one_bit_orientations example_View_state)"

section \<open>Auxiliary facts\<close>

subsection \<open>Doubles\<close>

lemma double_eq_sym: "double_eq a b = double_eq b a"
  by (auto simp: double_eq_def)

lemma double_eq_refl_iff: "double_eq a a = (\<not> double_isnan a)"
  by (simp add: double_eq_def)

lemma double_0_not_nan: "\<not> double_isnan double_0"
  by (simp add: double_isnan_def double_0_def double_exponent_def double_fraction_def)

lemma double_1_not_nan: "\<not> double_isnan double_1"
  by (simp add: double_isnan_def double_1_def double_exponent_def double_fraction_def)

lemma double_NaN_isnan: "double_isnan double_NaN"
  by (simp add: double_isnan_def double_NaN_def double_exponent_def double_fraction_def)

subsection \<open>The member functions of UiLength\<close>

text \<open>A call that is given a length yields a truth value or that same length.\<close>

lemma UiLength_call_of_argument:
  "l \<in> set (UiLength_arguments m) \<Longrightarrow>
     UiLength_call m = R_UiLength l \<or> (\<exists>r. UiLength_call m = R_bool r)"
  by (cases m) simp_all

lemma no_member_converts: "\<not> converts m l u"
proof
  assume c: "converts m l u"
  then have arg: "l \<in> set (UiLength_arguments m)" and other: "unit l \<noteq> u"
    by (simp_all add: converts_def)
  from UiLength_call_of_argument [OF arg] show False
  proof
    assume "UiLength_call m = R_UiLength l"
    with c other show False by (simp add: converts_def)
  next
    assume "\<exists>r. UiLength_call m = R_bool r"
    then obtain r where "UiLength_call m = R_bool r" ..
    with c show False by (simp add: converts_def)
  qed
qed

subsection \<open>The content view\<close>

text \<open>Running the change handlers leaves the property itself alone.\<close>

lemma contentView_notify: "contentView (notify hs w) = contentView w"
proof (induction hs arbitrary: w)
  case Nil
  show ?case by simp
next
  case (Cons h hs)
  show ?case by (cases h) (simp add: Cons.IH)
qed

lemma contentView_assign: "contentView (assign_contentView v w) = v"
  by (simp add: assign_contentView_def contentView_notify)

text \<open>On the main thread both assertions pass and the bodies run.\<close>

lemma childViews_main:
  "isMainThread app \<Longrightarrow>
     childViews app w = Inr (case contentView w of None \<Rightarrow> [] | Some v \<Rightarrow> [v])"
  by (simp add: childViews_def assert'_def split: option.split)

lemma childViewStolen_main:
  "isMainThread app \<Longrightarrow>
     childViewStolen app childView w =
       Inr (if childView = contentView w then assign_contentView None w else w)"
  by (simp add: childViewStolen_def assert'_def)

lemma example_Window_reachable: "reachable one_bit_orientations (\<lambda>w. w) example_Window"
  unfolding example_Window_def
  by (rule reachable.content_assigned) (rule reachable.constructed)

section \<open>The claims\<close>

subsection \<open>Window::bindViewCore and the core-creating properties\<close>

text \<open>
  Claim C1. Whatever \<^verbatim>\<open>View::bindViewCore\<close> does, \<open>bindViewCore\<close> then makes exactly five
  bindings and changes nothing else: the core's \<open>contentView\<close> to the window's
  \<open>contentView\<close>, \<open>title\<close> to \<open>title\<close>, \<open>allowedOrientations\<close> to \<open>allowedOrientations\<close>,
  \<open>currentOrientation\<close> to \<open>currentOrientation\<close>, and the core's \<open>contentGeometry\<close> to the
  window's \<open>internalContentGeometry\<close>. The constructor registers \<open>visible\<close>, \<open>contentView\<close>,
  \<open>geometry\<close> and \<open>contentGeometry\<close> as core-creating properties, so \<open>visible\<close> and
  \<open>geometry\<close> are among them.
\<close>

theorem bindViewCore_binds:
  "bindViewCore View_bindViewCore w =
     (View_bindViewCore w)\<lparr>coreBindings := coreBindings (View_bindViewCore w) @
        [(Core_contentView, P_contentView),
         (Core_title, P_title),
         (Core_allowedOrientations, P_allowedOrientations),
         (Core_currentOrientation, P_currentOrientation),
         (Core_contentGeometry, P_internalContentGeometry)]\<rparr>
   \<and> coreCreatingProperties (Window_new K w0) =
       coreCreatingProperties w0 @ [P_visible, P_contentView, P_geometry, P_contentGeometry]
   \<and> P_visible \<in> set (coreCreatingProperties (Window_new K w0))
   \<and> P_geometry \<in> set (coreCreatingProperties (Window_new K w0))"
  by (simp add: bindViewCore_def Property_bind_def Window_new_def
        registerCoreCreatingProperties_def Let_def)

text \<open>A freshly constructed window whose base class binds nothing.\<close>

theorem bindViewCore_binds_witness:
  "coreBindings (bindViewCore (\<lambda>w. w) (Window_new one_bit_orientations example_View_state)) =
        [(Core_contentView, P_contentView),
         (Core_title, P_title),
         (Core_allowedOrientations, P_allowedOrientations),
         (Core_currentOrientation, P_currentOrientation),
         (Core_contentGeometry, P_internalContentGeometry)]
   \<and> coreCreatingProperties (Window_new one_bit_orientations example_View_state) =
        [P_visible, P_contentView, P_geometry, P_contentGeometry]"
  using bindViewCore_binds [of "\<lambda>w. w" "Window_new one_bit_orientations example_View_state"
      one_bit_orientations example_View_state]
  by (simp add: example_View_state_def Window_new_def registerCoreCreatingProperties_def)

subsection \<open>At most one child view\<close>

text \<open>
  Claim C2. In every reachable state of a window, and for a caller on the main thread,
  \<open>childViews\<close> returns the one-element list of the content view when there is one and
  the empty list otherwise, so at most one child. \<open>removeAllChildViews\<close> sets the content
  view to null and leads to a reachable state with no child; \<open>childViewStolen\<close> returns,
  leads to a reachable state with at most one child, and the stolen view is not among
  the children afterwards. Every operation leads from a reachable state to a reachable
  state, for which the first statement holds again.
\<close>

theorem Window_single_child:
  assumes "reachable K View_bindViewCore w" and "isMainThread app"
  shows "childViews app w = Inr (case contentView w of None \<Rightarrow> [] | Some v \<Rightarrow> [v])
    \<and> (\<exists>children. childViews app w = Inr children \<and> length children \<le> 1)
    \<and> contentView (removeAllChildViews w) = None
    \<and> childViews app (removeAllChildViews w) = Inr []
    \<and> reachable K View_bindViewCore (removeAllChildViews w)
    \<and> (\<exists>w'. childViewStolen app childView w = Inr w'
          \<and> reachable K View_bindViewCore w'
          \<and> (\<exists>children. childViews app w' = Inr children \<and> length children \<le> 1
                \<and> childView \<notin> Some ` set children))"
proof -
  let ?w' = "if childView = contentView w then assign_contentView None w else w"
  have cv: "childViews app w = Inr (case contentView w of None \<Rightarrow> [] | Some v \<Rightarrow> [v])"
    using assms(2) by (rule childViews_main)
  have len: "\<exists>children. childViews app w = Inr children \<and> length children \<le> 1"
    using cv by (cases "contentView w") simp_all
  have rm: "contentView (removeAllChildViews w) = None"
    by (simp add: removeAllChildViews_def contentView_assign)
  have rm_cv: "childViews app (removeAllChildViews w) = Inr []"
    using childViews_main [OF assms(2), of "removeAllChildViews w"] rm by simp
  have rm_reach: "reachable K View_bindViewCore (removeAllChildViews w)"
    using assms(1) by (rule reachable.removed)
  have st: "childViewStolen app childView w = Inr ?w'"
    using assms(2) by (rule childViewStolen_main)
  have st_reach: "reachable K View_bindViewCore ?w'"
    using assms(1) st by (rule reachable.stolen)
  have st_cv: "\<exists>children. childViews app ?w' = Inr children \<and> length children \<le> 1
      \<and> childView \<notin> Some ` set children"
    using childViews_main [OF assms(2), of ?w']
    by (cases "contentView w") (auto simp: contentView_assign)
  show ?thesis
    using cv len rm rm_cv rm_reach st st_reach st_cv by blast
qed

text \<open>The window with content view 7, called from the main thread; view 7 is stolen.\<close>

theorem Window_single_child_witness:
  "reachable one_bit_orientations (\<lambda>w. w) example_Window
   \<and> isMainThread main_thread
   \<and> childViews main_thread example_Window = Inr [7]
   \<and> childViews main_thread (removeAllChildViews example_Window) = Inr []
   \<and> childViewStolen main_thread (Some 7) example_Window =
       Inr (removeAllChildViews example_Window)"
proof -
  have m: "isMainThread main_thread"
    by (simp add: main_thread_def)
  have c: "contentView example_Window = Some 7"
    by (simp add: example_Window_def contentView_assign)
  have s: "childViewStolen main_thread (Some 7) example_Window =
      Inr (removeAllChildViews example_Window)"
    using c by (simp add: childViewStolen_main [OF m] removeAllChildViews_def)
  show ?thesis
    using Window_single_child [OF example_Window_reachable m, of "Some 7"]
      example_Window_reachable m c s
    by simp
qed

subsection \<open>The main-thread assertions\<close>

text \<open>
  Claim C3. \<open>childViews\<close> and \<open>childViewStolen\<close> assert that they run on the main thread:
  each ends in a failed assertion exactly when assertions are compiled in and the caller
  is not on the main thread. For a caller on the main thread the assertions hold, the
  failure branch is not taken, and both operations return.
\<close>

theorem main_thread_assertions:
  "(childViews app w = Inl AssertionFailed) = (\<not> NDEBUG app \<and> \<not> isMainThread app)
   \<and> (childViewStolen app childView w = Inl AssertionFailed) =
       (\<not> NDEBUG app \<and> \<not> isMainThread app)
   \<and> (isMainThread app \<longrightarrow>
         (\<exists>children. childViews app w = Inr children)
         \<and> (\<exists>w'. childViewStolen app childView w = Inr w'))"
  by (auto simp: childViews_def childViewStolen_def assert'_def split: option.split)

text \<open>The same window, called from the main thread and from another thread.\<close>

theorem main_thread_assertions_witness:
  "isMainThread main_thread
   \<and> childViews main_thread example_Window = Inr [7]
   \<and> childViewStolen main_thread (Some 7) example_Window =
       Inr (removeAllChildViews example_Window)
   \<and> childViews other_thread example_Window = Inl AssertionFailed
   \<and> childViewStolen other_thread (Some 7) example_Window = Inl AssertionFailed"
  using main_thread_assertions [of main_thread example_Window "Some 7"]
    main_thread_assertions [of other_thread example_Window "Some 7"]
  by (simp add: main_thread_def other_thread_def childViews_def childViewStolen_def assert'_def
        example_Window_def contentView_assign removeAllChildViews_def)

subsection \<open>orientationToString\<close>

text \<open>
  Claim C4. For every mask, \<open>orientationToString\<close> returns the names of exactly the flags
  that the mask has set (a flag is set when the function's own test \<^verbatim>\<open>orientation & flag\<close>
  is true), in the fixed order Portrait, LandscapeLeft, LandscapeRight, PortraitUpsideDown,
  with \<^verbatim>\<open>" | "\<close> between consecutive names; the result is the empty string exactly when
  none of the four flags is set. This holds for every value of the four constants.
\<close>

theorem orientationToString_names:
  "orientationToString K orientation =
     separated_by '' | '' (names_of_set_flags K orientation)
   \<and> (orientationToString K orientation = []) =
       (\<not> orientation_and orientation (Orientation_Portrait K)
        \<and> \<not> orientation_and orientation (Orientation_LandscapeLeft K)
        \<and> \<not> orientation_and orientation (Orientation_LandscapeRight K)
        \<and> \<not> orientation_and orientation (Orientation_PortraitUpsideDown K))"
  by (cases "orientation_and orientation (Orientation_Portrait K)";
      cases "orientation_and orientation (Orientation_LandscapeLeft K)";
      cases "orientation_and orientation (Orientation_LandscapeRight K)";
      cases "orientation_and orientation (Orientation_PortraitUpsideDown K)")
     (simp_all add: orientationToString_def names_of_set_flags_def orientation_names_def
        put_def tellp_def)

text \<open>
  With one bit per flag: the mask 5 has Portrait and LandscapeRight set, the mask 0 has
  nothing set, the mask 15 has all four.
\<close>

theorem orientationToString_names_witness:
  "orientationToString one_bit_orientations 5 = ''Portrait | LandscapeRight''
   \<and> orientationToString one_bit_orientations 0 = []
   \<and> orientationToString one_bit_orientations 15 =
       ''Portrait | LandscapeLeft | LandscapeRight | PortraitUpsideDown''"
  using orientationToString_names [of one_bit_orientations 5]
    orientationToString_names [of one_bit_orientations 0]
    orientationToString_names [of one_bit_orientations 15]
  by (simp add: names_of_set_flags_def orientation_names_def one_bit_orientations_def
        orientation_and_def)

subsection \<open>UiLength and conversion between units\<close>

text \<open>
  Claim C5, as stated: for \<open>UiLength\<close> values there are operations that convert a length
  between the units. There is none: no call of a member function, with any arguments,
  converts any length to any unit. Given one sem, the comparisons yield truth values and
  the copy yields one sem again.
\<close>

theorem UiLength_conversion_counterexample:
  "\<not> (\<exists>m l u. converts m l u)
   \<and> UiLength_call (M_copy (UiLength_init sem double_1)) =
       R_UiLength (UiLength_init sem double_1)
   \<and> UiLength_call (M_eq (UiLength_init sem double_1) (UiLength_init pixel96 double_1)) =
       R_bool False
   \<and> UiLength_call (M_neq (UiLength_init sem double_1) (UiLength_init pixel96 double_1)) =
       R_bool True"
  by (simp add: no_member_converts UiLength_eq_def UiLength_neq_def UiLength_init_def)

text \<open>
  Claim C5, amended. The class provides no operation that converts a length between the
  units sem, realPixel and pixel96. A \<open>UiLength\<close> is a value tagged with its unit: the
  constructor stores the unit and the value as given; a member function that is given a
  length yields a truth value (the comparisons) or that same length (the copy), so none
  converts; and lengths of different units never compare equal.
\<close>

theorem UiLength_members_convert_nothing:
  "unit (UiLength_init u v) = u \<and> value (UiLength_init u v) = v
   \<and> (l \<in> set (UiLength_arguments m) \<longrightarrow>
         UiLength_call m = R_UiLength l \<or> (\<exists>r. UiLength_call m = R_bool r))
   \<and> \<not> converts m l u'
   \<and> (UiLength_eq a b \<longrightarrow> unit a = unit b)"
  using UiLength_call_of_argument [of l m] no_member_converts [of m l u']
  by (simp add: UiLength_init_def UiLength_eq_def)

text \<open>One real pixel, copied and compared with itself.\<close>

theorem UiLength_members_convert_nothing_witness:
  "UiLength_init realPixel double_1
     \<in> set (UiLength_arguments (M_copy (UiLength_init realPixel double_1)))
   \<and> UiLength_call (M_copy (UiLength_init realPixel double_1)) =
       R_UiLength (UiLength_init realPixel double_1)
   \<and> \<not> converts (M_copy (UiLength_init realPixel double_1))
         (UiLength_init realPixel double_1) pixel96
   \<and> UiLength_eq (UiLength_init realPixel double_1) (UiLength_init realPixel double_1)
   \<and> unit (UiLength_init realPixel double_1) = realPixel
   \<and> value (UiLength_init realPixel double_1) = double_1"
  using UiLength_members_convert_nothing
    [of realPixel double_1 "UiLength_init realPixel double_1"
        "M_copy (UiLength_init realPixel double_1)" pixel96
        "UiLength_init realPixel double_1" "UiLength_init realPixel double_1"]
  by (simp add: UiLength_eq_def double_eq_refl_iff double_1_not_nan)

subsection \<open>Equality of UiLength\<close>

text \<open>
  Claim C6. \<open>a == b\<close> is true exactly when the units are equal and the values compare
  equal as doubles; \<open>a != b\<close> is its negation; \<open>==\<close> is symmetric; and \<open>a == a\<close> holds
  exactly when the value of \<open>a\<close> compares equal to itself, that is, when it is not a NaN.
\<close>

theorem UiLength_eq_iff:
  "UiLength_eq a b = (unit a = unit b \<and> double_eq (value a) (value b))
   \<and> UiLength_neq a b = (\<not> UiLength_eq a b)
   \<and> UiLength_eq a b = UiLength_eq b a
   \<and> UiLength_eq a a = double_eq (value a) (value a)
   \<and> UiLength_eq a a = (\<not> double_isnan (value a))"
proof -
  have sym: "UiLength_eq a b = UiLength_eq b a"
    unfolding UiLength_eq_def using double_eq_sym [of "value a" "value b"] by auto
  show ?thesis
    using sym by (simp add: UiLength_eq_def UiLength_neq_def double_eq_refl_iff)
qed

text \<open>One sem equals itself and differs from one pixel96; a NaN length differs from itself.\<close>

theorem UiLength_eq_iff_witness:
  "UiLength_eq (UiLength_init sem double_1) (UiLength_init sem double_1)
   \<and> \<not> UiLength_eq (UiLength_init sem double_1) (UiLength_init pixel96 double_1)
   \<and> \<not> UiLength_eq (UiLength_init sem double_NaN) (UiLength_init sem double_NaN)
   \<and> UiLength_neq (UiLength_init sem double_NaN) (UiLength_init sem double_NaN)"
  using UiLength_eq_iff [of "UiLength_init sem double_1" "UiLength_init sem double_1"]
    UiLength_eq_iff [of "UiLength_init sem double_1" "UiLength_init pixel96 double_1"]
    UiLength_eq_iff [of "UiLength_init sem double_NaN" "UiLength_init sem double_NaN"]
  by (simp add: UiLength_init_def double_eq_refl_iff double_1_not_nan double_NaN_isnan)

subsection \<open>Initial values\<close>

text \<open>
  Claim C7. Whatever the base class leaves behind, a window is hidden and allows all
  orientations when its constructor has run; a default-constructed \<open>UiLength\<close> has the
  unit sem and the value 0.
\<close>

theorem new_Window_hidden_all_orientations:
  "visible (Window_new K w0) = False
   \<and> allowedOrientations (Window_new K w0) = Orientation_All K
   \<and> unit UiLength_default = sem
   \<and> value UiLength_default = double_0"
  by (simp add: Window_new_def registerCoreCreatingProperties_def UiLength_default_def)

text \<open>An object that was visible and portrait-only before the constructor body ran.\<close>

theorem new_Window_hidden_all_orientations_witness:
  "visible example_View_state
   \<and> \<not> visible (Window_new one_bit_orientations example_View_state)
   \<and> allowedOrientations (Window_new one_bit_orientations example_View_state) = 15
   \<and> unit UiLength_default = sem \<and> value UiLength_default = 0"
  using new_Window_hidden_all_orientations [of one_bit_orientations example_View_state]
  by (simp add: one_bit_orientations_def example_View_state_def double_0_def)

subsection \<open>HTTPResponse\<close>

text \<open>
  Claim C8. A response is its five fields and nothing more: reading a field of a
  constructed response gives the value it was constructed with, and two responses are
  equal exactly when they agree on \<open>originalRequest\<close>, \<open>responseCode\<close>, \<open>url\<close>, \<open>header\<close>
  and \<open>data\<close>.
\<close>

theorem HTTPResponse_fields:
  fixes a b :: "'request HTTPResponse"
  shows "originalRequest \<lparr>originalRequest = r, responseCode = c, url = u, header = h, data = d\<rparr> = r
   \<and> responseCode \<lparr>originalRequest = r, responseCode = c, url = u, header = h, data = d\<rparr> = c
   \<and> url \<lparr>originalRequest = r, responseCode = c, url = u, header = h, data = d\<rparr> = u
   \<and> header \<lparr>originalRequest = r, responseCode = c, url = u, header = h, data = d\<rparr> = h
   \<and> data \<lparr>originalRequest = r, responseCode = c, url = u, header = h, data = d\<rparr> = d
   \<and> (a = b) =
       (originalRequest a = originalRequest b \<and> responseCode a = responseCode b
        \<and> url a = url b \<and> header a = header b \<and> data a = data b)"
  by (cases a, cases b) auto

theorem HTTPResponse_fields_witness:
  "responseCode \<lparr>originalRequest = ''GET /'', responseCode = 200, url = ''http://a/'',
       header = ''h'', data = ''body''\<rparr> = 200
   \<and> data \<lparr>originalRequest = ''GET /'', responseCode = 200, url = ''http://a/'',
       header = ''h'', data = ''body''\<rparr> = ''body''
   \<and> \<lparr>originalRequest = ''GET /'', responseCode = 200, url = ''http://a/'',
       header = ''h'', data = ''body''\<rparr>
     \<noteq> \<lparr>originalRequest = ''GET /'', responseCode = 404, url = ''http://a/'',
       header = ''h'', data = ''body''\<rparr>"
  using HTTPResponse_fields [of "''GET /''" 200 "''http://a/''" "''h''" "''body''"
      "\<lparr>originalRequest = ''GET /'', responseCode = 200, url = ''http://a/'',
         header = ''h'', data = ''body''\<rparr>"
      "\<lparr>originalRequest = ''GET /'', responseCode = 404, url = ''http://a/'',
         header = ''h'', data = ''body''\<rparr>"]
  by simp

end
